theory Spec2Isabelle
  imports Complex_Main "HOL-Library.Sublist"
begin

section \<open>Python values and exceptions\<close>

text \<open>
  The module \<^verbatim>\<open>ibmiotf/__init__.py\<close> is glue code over the paho MQTT client, the
  logging module and \<^verbatim>\<open>threading\<close>. The embedding keeps the state of a client object in a
  record, returns every exception as the left summand of a sum type, and records each call
  made on a collaborator (logger, paho client, lock, event, user callback) in an event
  trace held by the state, in program order.
\<close>

text \<open>Arguments of log calls: the values handed to a format template.\<close>

datatype pyval = PNone | PStr string | PInt int | PReal real

text \<open>
  The exception classes of the module, with the fields their constructors store, and the
  two builtin exceptions its code can raise: \<^verbatim>\<open>KeyError\<close> (indexing a dict with a missing
  key) and \<^verbatim>\<open>TypeError\<close> (calling \<^verbatim>\<open>None\<close>).
\<close>

datatype exn =
    ConnectionException string
  | ConfigurationException string
  | UnsupportedAuthenticationMethod string
  | InvalidEventException string
  | MissingMessageDecoderException string
  | MissingMessageEncoderException string
  | APIException int string string
  | KeyError string
  | TypeError string

text \<open>The class statements: every class and the base it names.\<close>

datatype exn_class =
    BaseException_cls
  | Exception_cls
  | LookupError_cls
  | KeyError_cls
  | TypeError_cls
  | ConnectionException_cls
  | ConfigurationException_cls
  | UnsupportedAuthenticationMethod_cls
  | InvalidEventException_cls
  | MissingMessageDecoderException_cls
  | MissingMessageEncoderException_cls
  | APIException_cls

fun class_of :: "exn \<Rightarrow> exn_class" where
  "class_of (ConnectionException r) = ConnectionException_cls"
| "class_of (ConfigurationException r) = ConfigurationException_cls"
| "class_of (UnsupportedAuthenticationMethod m) = UnsupportedAuthenticationMethod_cls"
| "class_of (InvalidEventException r) = InvalidEventException_cls"
| "class_of (MissingMessageDecoderException f) = MissingMessageDecoderException_cls"
| "class_of (MissingMessageEncoderException f) = MissingMessageEncoderException_cls"
| "class_of (APIException c m r) = APIException_cls"
| "class_of (KeyError k) = KeyError_cls"
| "class_of (TypeError m) = TypeError_cls"

fun base :: "exn_class \<Rightarrow> exn_class option" where
  "base BaseException_cls = None"
| "base Exception_cls = Some BaseException_cls"
| "base LookupError_cls = Some Exception_cls"
| "base KeyError_cls = Some LookupError_cls"
| "base TypeError_cls = Some Exception_cls"
| "base ConnectionException_cls = Some Exception_cls"
| "base ConfigurationException_cls = Some ConnectionException_cls"
| "base UnsupportedAuthenticationMethod_cls = Some ConnectionException_cls"
| "base InvalidEventException_cls = Some Exception_cls"
| "base MissingMessageDecoderException_cls = Some Exception_cls"
| "base MissingMessageEncoderException_cls = Some Exception_cls"
| "base APIException_cls = Some Exception_cls"

text \<open>Distance of a class from the root of the hierarchy; it bounds the walk up the bases.\<close>

fun depth :: "exn_class \<Rightarrow> nat" where
  "depth BaseException_cls = 0"
| "depth Exception_cls = 1"
| "depth LookupError_cls = 2"
| "depth KeyError_cls = 3"
| "depth TypeError_cls = 2"
| "depth ConnectionException_cls = 2"
| "depth ConfigurationException_cls = 3"
| "depth UnsupportedAuthenticationMethod_cls = 3"
| "depth InvalidEventException_cls = 2"
| "depth MissingMessageDecoderException_cls = 2"
| "depth MissingMessageEncoderException_cls = 2"
| "depth APIException_cls = 2"

text \<open>The method resolution order of a class: the class, then the chain of its bases.\<close>

function mro :: "exn_class \<Rightarrow> exn_class list" where
  "mro c = c # (case base c of None \<Rightarrow> [] | Some b \<Rightarrow> mro b)"
  by pat_completeness auto
termination
proof (relation "measure depth")
  show "wf (measure depth)" by simp
next
  fix c b
  assume "base c = Some b"
  then have "depth b < depth c" by (cases c) auto
  then show "(b, c) \<in> measure depth" by simp
qed

declare mro.simps [simp del]

definition issubclass :: "exn_class \<Rightarrow> exn_class \<Rightarrow> bool" where
  "issubclass c d = (d \<in> set (mro c))"

text \<open>
  \<^verbatim>\<open>except H:\<close> catches an exception exactly when the class of the exception is \<^verbatim>\<open>H\<close> or
  derives from it.
\<close>

definition caught_by :: "exn_class \<Rightarrow> exn \<Rightarrow> bool" where
  "caught_by handler e = issubclass (class_of e) handler"

subsection \<open>Decimal text of an integer, for the \<^verbatim>\<open>%s\<close> of a status code\<close>

function str_nat :: "nat \<Rightarrow> string" where
  "str_nat n = (if n < 10 then [char_of (48 + n)]
                else str_nat (n div 10) @ [char_of (48 + n mod 10)])"
  by pat_completeness auto
termination
  by (relation "measure id") auto

declare str_nat.simps [simp del]

definition str_int :: "int \<Rightarrow> string" where
  "str_int i = (if i < 0 then CHR ''-'' # str_nat (nat (- i)) else str_nat (nat i))"

text \<open>
  \<^verbatim>\<open>str(e)\<close>: the \<^verbatim>\<open>__str__\<close> method of each class of the module; for the two builtins, the
  text Python gives (the \<^verbatim>\<open>repr\<close> of the key for \<^verbatim>\<open>KeyError\<close>, taken here for a key without
  quotes or escapes).
\<close>

fun str_exn :: "exn \<Rightarrow> string" where
  "str_exn (ConnectionException reason) = reason"
| "str_exn (ConfigurationException reason) = reason"
| "str_exn (UnsupportedAuthenticationMethod method) =
     ''Unsupported authentication method: '' @ method"
| "str_exn (InvalidEventException reason) = ''Invalid Event: '' @ reason"
| "str_exn (MissingMessageDecoderException format) =
     ''No message decoder defined for message format: '' @ format"
| "str_exn (MissingMessageEncoderException format) =
     ''No message encoder defined for message format: '' @ format"
| "str_exn (APIException httpCode message response) =
     ''['' @ str_int httpCode @ ''] '' @ message"
| "str_exn (KeyError k) = [CHR 39] @ k @ [CHR 39]"
| "str_exn (TypeError m) = m"

section \<open>Broker address\<close>

text \<open>
  An argument that may be \<^verbatim>\<open>None\<close> is a \<open>string option\<close>. Python's \<^verbatim>\<open>not x\<close> holds for
  \<^verbatim>\<open>None\<close> and for the empty string.
\<close>

definition truthy :: "string option \<Rightarrow> bool" where
  "truthy x = (case x of None \<Rightarrow> False | Some s \<Rightarrow> s \<noteq> [])"

definition getBrokerAddress ::
  "string option \<Rightarrow> string option \<Rightarrow> string option \<Rightarrow> exn + string" where
  "getBrokerAddress domain orgId completeBrokerUrl =
     (if \<not> truthy completeBrokerUrl \<and> (\<not> truthy domain \<or> \<not> truthy orgId) then
        Inl (ConfigurationException
          (''No full broker URL given, so both domain and organisation '' @
           ''must be specified''))
      else
        Inr (if truthy completeBrokerUrl then the completeBrokerUrl
             else the orgId @ ''.messaging.'' @ the domain))"

text \<open>
  Past the guard, whichever operand the conditional expression reads is a non-empty string,
  so \<open>the\<close> is only ever applied to \<open>Some\<close>.
\<close>

section \<open>Content type of the HTTP client\<close>

definition getContentType :: "string \<Rightarrow> string" where
  "getContentType dataFormat =
     (let contentType = ''application/json'' in
      if dataFormat = ''text'' then ''text/plain; charset=utf-8''
      else if dataFormat = ''xml'' then ''application/xml''
      else if dataFormat = ''bin'' then ''application/octet-stream''
      else ''application/json'')"

section \<open>The MQTT client\<close>

subsection \<open>Collaborators, seen through the calls made on them\<close>

datatype level = DEBUG | INFO | WARNING | ERROR | CRITICAL

datatype lock = messagesLock | recvLock

text \<open>The methods of the paho client that the module calls, with their arguments.\<close>

datatype paho_call =
    Client string bool string
  | enable_logger
  | tls_set "string option" int
  | username_pw_set string "string option"
  | paho_connect string int int
  | loop_start
  | loop_stop
  | paho_disconnect

text \<open>
  One entry per call on a collaborator: a log call (level, template or text, arguments), a
  call on the paho client, entering and leaving a \<^verbatim>\<open>with lock:\<close> block, a timed wait on
  the connect event, and the call of a completion callback. Callbacks are opaque: calling
  one is recorded, and it is taken to return.
\<close>

datatype 'cb event =
    Log level string "pyval list"
  | Paho paho_call
  | Acquire lock
  | Release lock
  | Wait int
  | Invoke 'cb

text \<open>A value of the callback dict: \<^verbatim>\<open>None\<close> or a callable.\<close>

datatype 'cb slot = PyNone | Callback 'cb

record ('cb, 'm) AbstractClient =
  organization :: "string option"
  username :: "string option"
  password :: "string option"
  address :: string
  keepAlive :: int
  connectEvent :: bool
  messages :: int
  recv :: int
  clientId :: string
  port :: int
  tlsVersion :: "int option"
  messageEncoderModules :: "string \<rightharpoonup> 'm"
  start :: real
  onPublishCallbacks :: "int \<rightharpoonup> 'cb slot"
  events :: "'cb event list"

definition emit ::
  "'cb event \<Rightarrow> ('cb, 'm) AbstractClient \<Rightarrow> ('cb, 'm) AbstractClient" where
  "emit e s = s\<lparr>events := events s @ [e]\<rparr>"

definition pv :: "string option \<Rightarrow> pyval" where
  "pv x = (case x of None \<Rightarrow> PNone | Some t \<Rightarrow> PStr t)"

text \<open>The callbacks invoked so far, oldest first.\<close>

fun invocations :: "'cb event list \<Rightarrow> 'cb list" where
  "invocations [] = []"
| "invocations (Invoke f # es) = f # invocations es"
| "invocations (e # es) = invocations es"

text \<open>The calls made on the paho client so far, oldest first.\<close>

fun paho_calls :: "'cb event list \<Rightarrow> paho_call list" where
  "paho_calls [] = []"
| "paho_calls (Paho c # es) = c # paho_calls es"
| "paho_calls (e # es) = paho_calls es"

text \<open>The levels of the log calls made so far, oldest first.\<close>

fun log_levels :: "'cb event list \<Rightarrow> level list" where
  "log_levels [] = []"
| "log_levels (Log l t args # es) = l # log_levels es"
| "log_levels (e # es) = log_levels es"

subsection \<open>Construction\<close>

text \<open>\<^verbatim>\<open>sub in text\<close> on strings.\<close>

fun contains :: "string \<Rightarrow> string \<Rightarrow> bool" where
  "contains sub [] = (sub = [])"
| "contains sub (c # cs) = (prefix sub (c # cs) \<or> contains sub cs)"

text \<open>
  The keyword parameters of \<^verbatim>\<open>__init__\<close> with the defaults of its signature
  (\<^verbatim>\<open>logHandlers\<close> is not read by the body).
\<close>

record kwargs =
  kw_port :: "int option"
  kw_cleanSession :: string
  kw_completeBrokerUrl :: "string option"
  kw_disableTLS :: bool
  kw_useWebsockets :: bool
  kw_keepAlive :: int
  kw_tlsVersion :: string

definition defaults :: kwargs where
  "defaults = \<lparr>kw_port = None, kw_cleanSession = ''true'', kw_completeBrokerUrl = None,
     kw_disableTLS = False, kw_useWebsockets = False, kw_keepAlive = 60,
     kw_tlsVersion = ''PROTOCOL_TLSv1_2''\<rparr>"

text \<open>
  What the constructor reads from outside the object: the attributes of module \<^verbatim>\<open>ssl\<close>
  (\<^verbatim>\<open>getattr\<close> raises \<^verbatim>\<open>AttributeError\<close> where the map is undefined), the directory of the
  module file, and the clock.
\<close>

record env =
  ssl_attr :: "string \<rightharpoonup> int"
  module_dir :: string
  time_now :: real

text \<open>
  \<^verbatim>\<open>AbstractClient.__init__\<close>. The four callback attributes it sets on the paho client are
  bound methods of the object; \<^verbatim>\<open>on_connect\<close> is defined by the concrete client classes,
  not by this one, and the model is of an object that has it.
\<close>

definition AbstractClient_init ::
  "env \<Rightarrow> string option \<Rightarrow> string option \<Rightarrow> string \<Rightarrow> string option \<Rightarrow> string option \<Rightarrow>
   kwargs \<Rightarrow> exn + ('cb, 'm) AbstractClient" where
  "AbstractClient_init ev domain organization' clientId' username' password' kw =
     (case getBrokerAddress domain organization' (kw_completeBrokerUrl kw) of
        Inl e \<Rightarrow> Inl e
      | Inr address' \<Rightarrow>
          (let transport = (if kw_useWebsockets kw then ''websockets'' else ''tcp'');
               port' = (case kw_port kw of
                          None \<Rightarrow> (if transport = ''tcp'' then 8883 else 9001)
                        | Some p \<Rightarrow> p);
               clean_session = (if kw_cleanSession kw = ''false'' then False else True);
               s0 = \<lparr>organization = organization', username = username',
                     password = password', address = address',
                     keepAlive = kw_keepAlive kw, connectEvent = False, messages = 0,
                     recv = 0, clientId = clientId', port = port', tlsVersion = None,
                     messageEncoderModules = Map.empty, start = time_now ev,
                     onPublishCallbacks = Map.empty, events = []\<rparr>;
               s1 = emit (Log DEBUG ''Using transport %s'' [PStr transport]) s0;
               s2 = emit (Log DEBUG ''Using port %d'' [PInt port']) s1;
               s3 = emit (Paho (Client clientId' clean_session transport)) s2;
               s4 = emit (Paho enable_logger) s3;
               s5 = (if kw_disableTLS kw then emit (Log WARNING ''TLS force disabled'' []) s4
                     else
                       (let t1 = emit (Log DEBUG (''Trying to enable '' @ [CHR 39] @ ''%s'' @ [CHR 39])
                                       [PStr (kw_tlsVersion kw)]) s4
                        in case ssl_attr ev (kw_tlsVersion kw) of
                             None \<Rightarrow> emit (Log WARNING ''Unable to enable TLS'' []) t1
                           | Some v \<Rightarrow>
                               (let t2 = t1\<lparr>tlsVersion := Some v\<rparr>;
                                    caFile =
                                      (if contains ''internetofthings.ibmcloud.com'' address'
                                       then Some (module_dir ev @ ''/messaging.pem'')
                                       else None);
                                    t3 = emit (Log DEBUG ''Using TLS - caFile = %s'' [pv caFile]) t2
                                in emit (Paho (tls_set caFile v)) t3)));
               s6 = (case username' of
                       None \<Rightarrow> s5
                     | Some u \<Rightarrow> emit (Paho (username_pw_set u password')) s5)
           in Inr s6))"

subsection \<open>Encoder registry\<close>

text \<open>Indexing a dict with a key it does not hold raises \<^verbatim>\<open>KeyError(key)\<close>.\<close>

definition getMessageEncoderModule ::
  "string \<Rightarrow> ('cb, 'm) AbstractClient \<Rightarrow> exn + 'm" where
  "getMessageEncoderModule messageFormat s =
     (case messageEncoderModules s messageFormat of
        None \<Rightarrow> Inl (KeyError messageFormat)
      | Some m \<Rightarrow> Inr m)"

definition setMessageEncoderModule ::
  "string \<Rightarrow> 'm \<Rightarrow> ('cb, 'm) AbstractClient \<Rightarrow> ('cb, 'm) AbstractClient" where
  "setMessageEncoderModule messageFormat m s =
     s\<lparr>messageEncoderModules := (messageEncoderModules s)(messageFormat \<mapsto> m)\<rparr>"

definition logAndRaiseException ::
  "exn \<Rightarrow> ('cb, 'm) AbstractClient \<Rightarrow> (exn + unit) \<times> ('cb, 'm) AbstractClient" where
  "logAndRaiseException e s = (Inl e, emit (Log CRITICAL (str_exn e) []) s)"

subsection \<open>Connecting and disconnecting\<close>

text \<open>
  What the transport does during one \<^verbatim>\<open>connect()\<close>: the paho \<^verbatim>\<open>connect\<close> call returns,
  raises \<^verbatim>\<open>socket.error\<close> (with the text \<^verbatim>\<open>str\<close> gives for it), or raises something
  else, which the \<^verbatim>\<open>except socket.error\<close> clause lets through.
\<close>

datatype connect_outcome =
    connect_returns
  | raises_socket_error string
  | raises_other exn

text \<open>
  \<^verbatim>\<open>connect\<close>. The second parameter is the result of \<^verbatim>\<open>connectEvent.wait(timeout=30)\<close>:
  true exactly when the event was set (by the transport's thread) before the timeout. The
  \<^verbatim>\<open>ConnectionException\<close> raised inside the \<^verbatim>\<open>try\<close> block is not a \<^verbatim>\<open>socket.error\<close>, so
  the handler does not see it.
\<close>

definition connect ::
  "connect_outcome \<Rightarrow> bool \<Rightarrow> ('cb, 'm) AbstractClient \<Rightarrow>
   (exn + unit) \<times> ('cb, 'm) AbstractClient" where
  "connect outcome signalled s =
     (let s1 = emit (Log DEBUG
                 (''Connecting... (address = %s, port = %s, clientId = %s, '' @
                  ''username = %s, password = %s)'')
                 [PStr (address s), PInt (port s), PStr (clientId s),
                  pv (username s), pv (password s)]) s;
          s2 = s1\<lparr>connectEvent := False\<rparr>;
          s3 = emit (Paho (paho_connect (address s) (port s) (keepAlive s))) s2
      in case outcome of
           raises_socket_error serr \<Rightarrow>
             logAndRaiseException
               (ConnectionException
                 (''Failed to connect to IBM Watson IoT Platform: '' @ address s @
                  '' - '' @ serr))
               (emit (Paho loop_stop) s3)
         | raises_other e \<Rightarrow> (Inl e, s3)
         | connect_returns \<Rightarrow>
             (let s4 = emit (Paho loop_start) s3;
                  s5 = emit (Wait 30) s4
              in if \<not> signalled then
                   logAndRaiseException
                     (ConnectionException
                       (''Operation timed out connecting to IBM Watson IoT Platform: '' @
                        address s))
                     (emit (Paho loop_stop) s5)
                 else (Inr (), s5\<lparr>connectEvent := True\<rparr>)))"

text \<open>\<^verbatim>\<open>disconnect\<close>: both paho calls return (paho reports failure by a result code).\<close>

definition disconnect :: "('cb, 'm) AbstractClient \<Rightarrow> ('cb, 'm) AbstractClient" where
  "disconnect s =
     (let s1 = emit (Paho paho_disconnect) s;
          s2 = emit (Paho loop_stop) s1
      in emit (Log INFO ''Closed connection to the IBM Watson IoT Platform'' []) s2)"

text \<open>
  \<^verbatim>\<open>stats\<close>, with the reading of the clock as a parameter; Python's floats are taken as
  reals.
\<close>

definition stats :: "real \<Rightarrow> ('cb, 'm) AbstractClient \<Rightarrow> ('cb, 'm) AbstractClient" where
  "stats now s =
     (let elapsed = now - start s;
          msgPerSecond = (if messages s = 0 then 0 else elapsed / of_int (messages s));
          recvPerSecond = (if recv s = 0 then 0 else elapsed / of_int (recv s));
          s1 = emit (Log DEBUG ''Messages published : %s, life: %.0fs, rate: 1/%.2fs''
                 [PInt (messages s), PReal elapsed, PReal msgPerSecond]) s
      in emit (Log DEBUG ''Messages received  : %s, life: %.0fs, rate: 1/%.2fs''
                 [PInt (recv s), PReal elapsed, PReal recvPerSecond]) s1)"

subsection \<open>Callbacks from the transport\<close>

definition on_log :: "string \<Rightarrow> ('cb, 'm) AbstractClient \<Rightarrow> ('cb, 'm) AbstractClient" where
  "on_log string s = emit (Log DEBUG string []) s"

definition on_disconnect ::
  "real \<Rightarrow> int \<Rightarrow> ('cb, 'm) AbstractClient \<Rightarrow> ('cb, 'm) AbstractClient" where
  "on_disconnect now rc s =
     (let s1 = (if rc = 1 then
                  emit (Log ERROR ''Unexpected disconnect from the IBM Watson IoT Platform'' []) s
                else
                  emit (Log INFO ''Disconnected from the IBM Watson IoT Platform'' []) s)
      in stats now s1)"

text \<open>
  \<^verbatim>\<open>on_publish\<close>. The \<^verbatim>\<open>with\<close> block releases the lock on the way out, also when the body
  raises. Calling the stored value raises \<^verbatim>\<open>TypeError\<close> when that value is \<^verbatim>\<open>None\<close>.
\<close>

definition none_not_callable :: exn where
  "none_not_callable =
     TypeError ([CHR 39] @ ''NoneType'' @ [CHR 39] @ '' object is not callable'')"

definition on_publish ::
  "int \<Rightarrow> ('cb, 'm) AbstractClient \<Rightarrow> (exn + unit) \<times> ('cb, 'm) AbstractClient" where
  "on_publish mid s =
     (let s1 = emit (Acquire messagesLock) s;
          s2 = s1\<lparr>messages := messages s1 + 1\<rparr>
      in case onPublishCallbacks s2 mid of
           Some midOnPublish \<Rightarrow>
             (let s3 = s2\<lparr>onPublishCallbacks := (onPublishCallbacks s2)(mid := None)\<rparr>
              in case midOnPublish of
                   Callback f \<Rightarrow> (Inr (), emit (Release messagesLock) (emit (Invoke f) s3))
                 | PyNone \<Rightarrow>
                     (Inl none_not_callable, emit (Release messagesLock) s3))
         | None \<Rightarrow>
             (Inr (),
              emit (Release messagesLock)
                (s2\<lparr>onPublishCallbacks := (onPublishCallbacks s2)(mid \<mapsto> PyNone)\<rparr>)))"

definition setKeepAliveInterval ::
  "int \<Rightarrow> ('cb, 'm) AbstractClient \<Rightarrow> ('cb, 'm) AbstractClient" where
  "setKeepAliveInterval newKeepAliveInterval s = s\<lparr>keepAlive := newKeepAliveInterval\<rparr>"

definition getKeepAliveInterval :: "('cb, 'm) AbstractClient \<Rightarrow> int" where
  "getKeepAliveInterval s = keepAlive s"

subsection \<open>Registering a completion callback\<close>

text \<open>
  Modelled from the spec: \<^verbatim>\<open>registerOrInvoke(publishId, callback)\<close>, the step a publishing
  caller takes right after issuing a publish; the module holds only the acknowledgement
  side (\<^verbatim>\<open>on_publish\<close>). In the spec's words: if the identifier is present as a sentinel in
  the registry, invoke the callback immediately and remove the sentinel; otherwise store the
  callback under the identifier for later invocation. The registry is guarded by the one
  lock that also guards the publish counter.
\<close>

definition registerOrInvoke ::
  "int \<Rightarrow> 'cb \<Rightarrow> ('cb, 'm) AbstractClient \<Rightarrow> ('cb, 'm) AbstractClient" where
  "registerOrInvoke publishId callback s =
     (let s1 = emit (Acquire messagesLock) s
      in case onPublishCallbacks s1 publishId of
           Some PyNone \<Rightarrow>
             emit (Release messagesLock)
               (emit (Invoke callback)
                 (s1\<lparr>onPublishCallbacks := (onPublishCallbacks s1)(publishId := None)\<rparr>))
         | _ \<Rightarrow>
             emit (Release messagesLock)
               (s1\<lparr>onPublishCallbacks :=
                      (onPublishCallbacks s1)(publishId \<mapsto> Callback callback)\<rparr>))"

section \<open>The HTTP client\<close>

text \<open>
  \<^verbatim>\<open>HttpAbstractClient\<close>: its encoder dict and the log calls it makes. The handlers its
  constructor installs on the logger are configuration of the logging module and stay
  outside the model; \<^verbatim>\<open>connect\<close> and \<^verbatim>\<open>disconnect\<close> do nothing.
\<close>

record 'm HttpAbstractClient =
  http_messageEncoderModules :: "string \<rightharpoonup> 'm"
  http_log :: "(level \<times> string) list"

definition HttpAbstractClient_init :: "'m HttpAbstractClient" where
  "HttpAbstractClient_init = \<lparr>http_messageEncoderModules = Map.empty, http_log = []\<rparr>"

definition http_connect :: "'m HttpAbstractClient \<Rightarrow> 'm HttpAbstractClient" where
  "http_connect h = h"

definition http_disconnect :: "'m HttpAbstractClient \<Rightarrow> 'm HttpAbstractClient" where
  "http_disconnect h = h"

definition http_getMessageEncoderModule :: "string \<Rightarrow> 'm HttpAbstractClient \<Rightarrow> exn + 'm" where
  "http_getMessageEncoderModule messageFormat h =
     (case http_messageEncoderModules h messageFormat of
        None \<Rightarrow> Inl (KeyError messageFormat)
      | Some m \<Rightarrow> Inr m)"

definition http_setMessageEncoderModule ::
  "string \<Rightarrow> 'm \<Rightarrow> 'm HttpAbstractClient \<Rightarrow> 'm HttpAbstractClient" where
  "http_setMessageEncoderModule messageFormat m h =
     h\<lparr>http_messageEncoderModules := (http_messageEncoderModules h)(messageFormat \<mapsto> m)\<rparr>"

definition http_logAndRaiseException ::
  "exn \<Rightarrow> 'm HttpAbstractClient \<Rightarrow> (exn + unit) \<times> 'm HttpAbstractClient" where
  "http_logAndRaiseException e h = (Inl e, h\<lparr>http_log := http_log h @ [(CRITICAL, str_exn e)]\<rparr>)"

section \<open>States used in the examples\<close>

text \<open>A client as its constructor leaves it: nothing registered, nothing counted.\<close>

definition fresh :: "('cb, 'm) AbstractClient \<Rightarrow> bool" where
  "fresh s = (onPublishCallbacks s = Map.empty \<and> messageEncoderModules s = Map.empty \<and>
              messages s = 0 \<and> \<not> connectEvent s)"

definition example_env :: env where
  "example_env = \<lparr>ssl_attr = [''PROTOCOL_TLSv1_2'' \<mapsto> 5], module_dir = ''/opt/ibmiotf'',
     time_now = 0\<rparr>"

text \<open>
  A device client built with the default keyword arguments, with callbacks and codec
  modules named by numbers.
\<close>

definition example_client :: "(nat, nat) AbstractClient" where
  "example_client =
     projr (AbstractClient_init example_env (Some ''x.com'') (Some ''org1'') ''d:org1:t:dev1''
              (Some ''use-token-auth'') (Some ''secret'') defaults)"

text \<open>The same client after a \<^verbatim>\<open>connect()\<close> that the broker answered in time.\<close>

definition connected_client :: "(nat, nat) AbstractClient" where
  "connected_client = snd (connect connect_returns True example_client)"

section \<open>Auxiliary facts\<close>

lemma emit_simps [simp]:
  "events (emit e s) = events s @ [e]"
  "onPublishCallbacks (emit e s) = onPublishCallbacks s"
  "messageEncoderModules (emit e s) = messageEncoderModules s"
  "messages (emit e s) = messages s"
  "recv (emit e s) = recv s"
  "connectEvent (emit e s) = connectEvent s"
  "address (emit e s) = address s"
  "port (emit e s) = port s"
  "keepAlive (emit e s) = keepAlive s"
  "clientId (emit e s) = clientId s"
  "username (emit e s) = username s"
  "password (emit e s) = password s"
  "start (emit e s) = start s"
  by (simp_all add: emit_def)

lemma invocations_append: "invocations (xs @ ys) = invocations xs @ invocations ys"
  by (induction xs rule: invocations.induct) simp_all

lemma log_levels_append: "log_levels (xs @ ys) = log_levels xs @ log_levels ys"
  by (induction xs rule: log_levels.induct) simp_all

lemma paho_calls_append: "paho_calls (xs @ ys) = paho_calls xs @ paho_calls ys"
  by (induction xs rule: paho_calls.induct) simp_all

subsection \<open>The constructor leaves a fresh client\<close>

lemma fresh_emit: "fresh s \<Longrightarrow> fresh (emit e s)"
  by (simp add: fresh_def)

lemma fresh_tls: "fresh s \<Longrightarrow> fresh (s\<lparr>tlsVersion := v\<rparr>)"
  by (simp add: fresh_def)

lemma fresh_if: "fresh x \<Longrightarrow> fresh y \<Longrightarrow> fresh (if b then x else y)"
  by simp

lemma fresh_case:
  "fresh x \<Longrightarrow> (\<And>v. fresh (f v)) \<Longrightarrow> fresh (case opt of None \<Rightarrow> x | Some v \<Rightarrow> f v)"
  by (simp split: option.split)

lemma init_fresh:
  assumes "AbstractClient_init ev d org c u p kw = Inr s"
  shows "fresh s"
proof -
  from assms obtain a where a: "getBrokerAddress d org (kw_completeBrokerUrl kw) = Inr a"
    by (auto simp: AbstractClient_init_def split: sum.splits)
  have s: "s = projr (AbstractClient_init ev d org c u p kw)" using assms by simp
  show ?thesis
    unfolding s AbstractClient_init_def a Let_def sum.case sum.sel
    by (intro fresh_case fresh_if fresh_emit fresh_tls) (simp_all add: fresh_def)
qed

lemma init_address:
  assumes "AbstractClient_init ev d org c u p kw = Inr s"
  shows "getBrokerAddress d org (kw_completeBrokerUrl kw) = Inr (address s)"
proof -
  from assms obtain a where a: "getBrokerAddress d org (kw_completeBrokerUrl kw) = Inr a"
    by (auto simp: AbstractClient_init_def split: sum.splits)
  have s: "s = projr (AbstractClient_init ev d org c u p kw)" using assms by simp
  have "address s = a"
    unfolding s AbstractClient_init_def a Let_def sum.case sum.sel
    by (simp add: if_distrib [of address] option.case_distrib [of address]
        cong: if_cong option.case_cong split: option.split)
  with a show ?thesis by simp
qed

subsection \<open>The example states\<close>

lemma example_address_ok:
  "getBrokerAddress (Some ''x.com'') (Some ''org1'') (kw_completeBrokerUrl defaults)
     = Inr ''org1.messaging.x.com''"
  by (simp add: getBrokerAddress_def truthy_def defaults_def)

lemma example_init:
  "AbstractClient_init example_env (Some ''x.com'') (Some ''org1'') ''d:org1:t:dev1''
     (Some ''use-token-auth'') (Some ''secret'') defaults = Inr example_client"
  unfolding example_client_def AbstractClient_init_def example_address_ok sum.case Let_def
  by simp

lemma example_fresh: "fresh example_client"
  by (rule init_fresh [OF example_init])

lemma example_address: "address example_client = ''org1.messaging.x.com''"
  using init_address [OF example_init] example_address_ok by simp

lemma example_levels: "log_levels (events example_client) = [DEBUG, DEBUG, DEBUG, DEBUG]"
  unfolding example_client_def AbstractClient_init_def example_address_ok sum.case Let_def
  by (simp add: example_env_def defaults_def log_levels_append pv_def)

lemma connected_client_event: "connectEvent connected_client"
  by (simp add: connected_client_def connect_def Let_def)

lemma connected_client_levels:
  "log_levels (events connected_client) = log_levels (events example_client) @ [DEBUG]"
  by (simp add: connected_client_def connect_def Let_def log_levels_append)

subsection \<open>Only registration writes the encoder dict\<close>

lemma modules_fold:
  "fmt \<notin> fst ` set regs \<Longrightarrow>
   messageEncoderModules (fold (\<lambda>(f, m). setMessageEncoderModule f m) regs s) fmt =
     messageEncoderModules s fmt"
  by (induction regs arbitrary: s) (auto simp: setMessageEncoderModule_def)

lemma http_modules_fold:
  "fmt \<notin> fst ` set regs \<Longrightarrow>
   http_messageEncoderModules (fold (\<lambda>(f, m). http_setMessageEncoderModule f m) regs h) fmt =
     http_messageEncoderModules h fmt"
  by (induction regs arbitrary: h) (auto simp: http_setMessageEncoderModule_def)

section \<open>Encoder lookup for a format that was never registered\<close>

text \<open>
  C1, as amended. On a client built by its constructor, after any sequence of
  \<^verbatim>\<open>setMessageEncoderModule\<close> calls none of which names the format, \<^verbatim>\<open>getMessageEncoderModule\<close>
  fails, on the MQTT client and on the HTTP client alike, and the exception is the
  \<^verbatim>\<open>KeyError\<close> of the dict lookup carrying that format name. Neither getter raises
  \<^verbatim>\<open>MissingMessageDecoderException\<close> or \<^verbatim>\<open>MissingMessageEncoderException\<close>: both index the
  dict without a guard.
\<close>

theorem getMessageEncoderModule_unregistered:
  assumes "AbstractClient_init ev d org c u p kw = Inr s"
    and "messageFormat \<notin> fst ` set regs"
  shows "getMessageEncoderModule messageFormat
           (fold (\<lambda>(f, m). setMessageEncoderModule f m) regs s) = Inl (KeyError messageFormat)
       \<and> http_getMessageEncoderModule messageFormat
           (fold (\<lambda>(f, m). http_setMessageEncoderModule f m) regs HttpAbstractClient_init)
           = Inl (KeyError messageFormat)"
proof -
  have none: "messageEncoderModules s messageFormat = None"
    using init_fresh [OF assms(1)] by (simp add: fresh_def)
  have "messageEncoderModules
      (fold (\<lambda>(f, m). setMessageEncoderModule f m) regs s) messageFormat = None"
    unfolding modules_fold [OF assms(2)] by (rule none)
  moreover have "http_messageEncoderModules
      (fold (\<lambda>(f, m). http_setMessageEncoderModule f m) regs HttpAbstractClient_init)
      messageFormat = None"
    unfolding http_modules_fold [OF assms(2)] by (simp add: HttpAbstractClient_init_def)
  ultimately show ?thesis
    by (simp add: getMessageEncoderModule_def http_getMessageEncoderModule_def)
qed

text \<open>With only \<^verbatim>\<open>json\<close> registered, looking up \<^verbatim>\<open>xml\<close> raises \<^verbatim>\<open>KeyError('xml')\<close>.\<close>

theorem getMessageEncoderModule_unregistered_witness:
  "getMessageEncoderModule ''xml''
      (fold (\<lambda>(f, m). setMessageEncoderModule f m) [(''json'', 1)] example_client)
     = Inl (KeyError ''xml'')
   \<and> http_getMessageEncoderModule ''xml''
      (fold (\<lambda>(f, m). http_setMessageEncoderModule f m) [(''json'', 1::nat)]
         HttpAbstractClient_init)
     = Inl (KeyError ''xml'')"
  using getMessageEncoderModule_unregistered [OF example_init, of "''xml''" "[(''json'', 1)]"]
  by simp

text \<open>
  The claim as stated fails on a client with nothing registered: the lookup of \<^verbatim>\<open>json\<close>
  raises neither of the two missing-codec exceptions, on either client.
\<close>

theorem getMessageEncoderModule_counterexample:
  "getMessageEncoderModule ''json'' example_client
      \<notin> {Inl (MissingMessageDecoderException ''json''),
          Inl (MissingMessageEncoderException ''json'')}
   \<and> http_getMessageEncoderModule ''json'' (HttpAbstractClient_init :: nat HttpAbstractClient)
      \<notin> {Inl (MissingMessageDecoderException ''json''),
          Inl (MissingMessageEncoderException ''json'')}"
  using example_fresh
  by (simp add: getMessageEncoderModule_def http_getMessageEncoderModule_def
      HttpAbstractClient_init_def fresh_def)

section \<open>Exactly one invocation per publish identifier\<close>

text \<open>
  C2. For a publish identifier that has no entry yet, and a callback \<open>cb\<close>: whether the
  caller registers first and the acknowledgement follows, or the acknowledgement comes
  first and the caller registers afterwards, neither step raises, the callback has been
  invoked zero times after the first step and exactly once after the second, and the
  registry holds no entry for the identifier at the end.
\<close>

theorem publish_callback_exactly_once:
  assumes "onPublishCallbacks s mid = None"
  shows "(fst (on_publish mid (registerOrInvoke mid cb s)) = Inr ()
          \<and> invocations (events (registerOrInvoke mid cb s)) = invocations (events s)
          \<and> invocations (events (snd (on_publish mid (registerOrInvoke mid cb s))))
              = invocations (events s) @ [cb]
          \<and> onPublishCallbacks (snd (on_publish mid (registerOrInvoke mid cb s))) mid = None)
       \<and> (fst (on_publish mid s) = Inr ()
          \<and> invocations (events (snd (on_publish mid s))) = invocations (events s)
          \<and> invocations (events (registerOrInvoke mid cb (snd (on_publish mid s))))
              = invocations (events s) @ [cb]
          \<and> onPublishCallbacks (registerOrInvoke mid cb (snd (on_publish mid s))) mid = None)"
  using assms
  by (simp add: on_publish_def registerOrInvoke_def Let_def invocations_append)

text \<open>Identifier 7 and callback 3 on the example client, in both orders.\<close>

theorem publish_callback_exactly_once_witness:
  "(fst (on_publish 7 (registerOrInvoke 7 3 example_client)) = Inr ()
     \<and> invocations (events (snd (on_publish 7 (registerOrInvoke 7 3 example_client))))
         = invocations (events example_client) @ [3]
     \<and> onPublishCallbacks (snd (on_publish 7 (registerOrInvoke 7 3 example_client))) 7 = None)
   \<and> (fst (on_publish 7 example_client) = Inr ()
     \<and> invocations (events (registerOrInvoke 7 3 (snd (on_publish 7 example_client))))
         = invocations (events example_client) @ [3]
     \<and> onPublishCallbacks (registerOrInvoke 7 3 (snd (on_publish 7 example_client))) 7 = None)"
proof -
  have "onPublishCallbacks example_client 7 = None"
    using example_fresh by (simp add: fresh_def)
  from publish_callback_exactly_once [OF this, of 3] show ?thesis by simp
qed

section \<open>The disconnect callback\<close>

text \<open>
  C3, as amended. Every invocation of \<^verbatim>\<open>on_disconnect\<close> leaves the connect event as it
  was, and makes three log calls: the first at error level exactly when the reason code
  is 1 and at info level for every other reason code, then the two debug lines of
  \<^verbatim>\<open>stats\<close>.
\<close>

theorem on_disconnect_effect:
  "connectEvent (on_disconnect now rc s) = connectEvent s
   \<and> log_levels (events (on_disconnect now rc s))
       = log_levels (events s) @ [if rc = 1 then ERROR else INFO, DEBUG, DEBUG]"
  by (simp add: on_disconnect_def stats_def Let_def log_levels_append)

text \<open>Reason code 1 on the connected client: still connected, error level.\<close>

theorem on_disconnect_effect_witness:
  "connectEvent (on_disconnect 5 1 connected_client)
   \<and> log_levels (events (on_disconnect 5 1 connected_client))
       = log_levels (events connected_client) @ [ERROR, DEBUG, DEBUG]"
  using on_disconnect_effect [of 5 1 connected_client] connected_client_event by simp

text \<open>
  The claim as stated fails at reason code 2 on the connected client: the connect event is
  still set afterwards, and no log call at error level has been made.
\<close>

theorem on_disconnect_counterexample:
  "connectEvent (on_disconnect 5 2 connected_client)
   \<and> ERROR \<notin> set (log_levels (events (on_disconnect 5 2 connected_client)))"
  by (simp add: on_disconnect_def stats_def Let_def log_levels_append
      connected_client_event connected_client_levels example_levels)

section \<open>A failed connect stops the loop first\<close>

text \<open>
  C4. When the connect event is not set within the wait of 30, \<^verbatim>\<open>connect\<close> raises a
  \<^verbatim>\<open>ConnectionException\<close> whose reason ends with the address, and the calls it made are, in
  order: the paho connect, \<^verbatim>\<open>loop_start\<close>, the wait, \<^verbatim>\<open>loop_stop\<close>, and only then the critical
  log of the error that is raised. When the paho connect raises \<^verbatim>\<open>socket.error\<close>, it raises a
  \<^verbatim>\<open>ConnectionException\<close> whose reason holds the address and then the text of the socket
  error, and \<^verbatim>\<open>loop_stop\<close> is again the last call on the transport, before the critical log.
\<close>

theorem connect_failure_stops_loop:
  "fst (connect connect_returns False s)
     = Inl (ConnectionException
         (''Operation timed out connecting to IBM Watson IoT Platform: '' @ address s))
   \<and> events (snd (connect connect_returns False s))
     = events s @
       [Log DEBUG
          (''Connecting... (address = %s, port = %s, clientId = %s, '' @
           ''username = %s, password = %s)'')
          [PStr (address s), PInt (port s), PStr (clientId s), pv (username s),
           pv (password s)],
        Paho (paho_connect (address s) (port s) (keepAlive s)),
        Paho loop_start,
        Wait 30,
        Paho loop_stop,
        Log CRITICAL
          (''Operation timed out connecting to IBM Watson IoT Platform: '' @ address s) []]
   \<and> fst (connect (raises_socket_error serr) signalled s)
     = Inl (ConnectionException
         (''Failed to connect to IBM Watson IoT Platform: '' @ address s @ '' - '' @ serr))
   \<and> events (snd (connect (raises_socket_error serr) signalled s))
     = events s @
       [Log DEBUG
          (''Connecting... (address = %s, port = %s, clientId = %s, '' @
           ''username = %s, password = %s)'')
          [PStr (address s), PInt (port s), PStr (clientId s), pv (username s),
           pv (password s)],
        Paho (paho_connect (address s) (port s) (keepAlive s)),
        Paho loop_stop,
        Log CRITICAL
          (''Failed to connect to IBM Watson IoT Platform: '' @ address s @ '' - '' @ serr)
          []]"
  by (simp add: connect_def Let_def logAndRaiseException_def)

text \<open>Both failures on the example client, whose address is \<^verbatim>\<open>org1.messaging.x.com\<close>.\<close>

theorem connect_failure_stops_loop_witness:
  "fst (connect connect_returns False example_client)
     = Inl (ConnectionException
         ''Operation timed out connecting to IBM Watson IoT Platform: org1.messaging.x.com'')
   \<and> paho_calls (events (snd (connect connect_returns False example_client)))
     = paho_calls (events example_client) @
       [paho_connect ''org1.messaging.x.com'' (port example_client) (keepAlive example_client),
        loop_start, loop_stop]
   \<and> fst (connect (raises_socket_error ''[Errno 111] Connection refused'') False example_client)
     = Inl (ConnectionException
         (''Failed to connect to IBM Watson IoT Platform: org1.messaging.x.com'' @
          '' - [Errno 111] Connection refused''))
   \<and> paho_calls (events (snd (connect (raises_socket_error ''[Errno 111] Connection refused'')
                                   False example_client)))
     = paho_calls (events example_client) @
       [paho_connect ''org1.messaging.x.com'' (port example_client) (keepAlive example_client),
        loop_stop]"
  using connect_failure_stops_loop [of example_client "''[Errno 111] Connection refused''" False]
  by (simp add: example_address paho_calls_append)

section \<open>Resolution of the broker address\<close>

text \<open>
  C5, as amended. Python's truth test counts the empty string as missing, so: for every
  non-empty domain \<open>d\<close> and non-empty organization \<open>org\<close>, with the complete URL absent or
  empty, the address is \<open>org\<close>, then \<^verbatim>\<open>.messaging.\<close>, then \<open>d\<close>; a non-empty complete URL is
  returned whatever the domain and the organization are; and when the complete URL is absent
  or empty and the domain or the organization is absent or empty, \<^verbatim>\<open>ConfigurationException\<close>
  is raised.
\<close>

theorem getBrokerAddress_resolution:
  "(d \<noteq> [] \<and> org \<noteq> [] \<and> \<not> truthy url \<longrightarrow>
      getBrokerAddress (Some d) (Some org) url = Inr (org @ ''.messaging.'' @ d))
   \<and> (u \<noteq> [] \<longrightarrow> getBrokerAddress domain orgId (Some u) = Inr u)
   \<and> (\<not> truthy url \<and> (\<not> truthy domain \<or> \<not> truthy orgId) \<longrightarrow>
      getBrokerAddress domain orgId url
        = Inl (ConfigurationException
            ''No full broker URL given, so both domain and organisation must be specified''))"
  by (simp add: getBrokerAddress_def truthy_def)

text \<open>The example of the specification, an explicit URL, and nothing given at all.\<close>

theorem getBrokerAddress_resolution_witness:
  "getBrokerAddress (Some ''x.com'') (Some ''org1'') None = Inr ''org1.messaging.x.com''
   \<and> getBrokerAddress (Some ''x.com'') (Some ''org1'') (Some ''broker.example.net'')
      = Inr ''broker.example.net''
   \<and> getBrokerAddress None None None
      = Inl (ConfigurationException
          ''No full broker URL given, so both domain and organisation must be specified'')"
  using getBrokerAddress_resolution [of "''x.com''" "''org1''" None "''broker.example.net''"
      "Some ''x.com''" "Some ''org1''"]
    getBrokerAddress_resolution [of "''x.com''" "''org1''" None "''broker.example.net''"
      None None]
  by (simp add: truthy_def)

text \<open>
  The claim as stated fails on empty strings: with the empty domain and organization
  \<^verbatim>\<open>org1\<close> the result is not \<^verbatim>\<open>org1.messaging.\<close> (the call raises), and an explicit but empty
  complete URL is not returned.
\<close>

theorem getBrokerAddress_counterexample:
  "getBrokerAddress (Some []) (Some ''org1'') None \<noteq> Inr (''org1'' @ ''.messaging.'' @ [])
   \<and> getBrokerAddress None None (Some []) \<noteq> Inr []"
  by (simp add: getBrokerAddress_def truthy_def)

section \<open>Content types\<close>

text \<open>
  C6. \<^verbatim>\<open>getContentType\<close> returns a content type for every data format (the model has no
  failing branch): \<^verbatim>\<open>application/json\<close> for \<^verbatim>\<open>json\<close>, \<^verbatim>\<open>text/plain; charset=utf-8\<close> for
  \<^verbatim>\<open>text\<close>, \<^verbatim>\<open>application/xml\<close> for \<^verbatim>\<open>xml\<close>, \<^verbatim>\<open>application/octet-stream\<close> for \<^verbatim>\<open>bin\<close>, and
  \<^verbatim>\<open>application/json\<close> for any other format.
\<close>

theorem getContentType_table:
  "getContentType ''json'' = ''application/json''
   \<and> getContentType ''text'' = ''text/plain; charset=utf-8''
   \<and> getContentType ''xml'' = ''application/xml''
   \<and> getContentType ''bin'' = ''application/octet-stream''
   \<and> (dataFormat \<notin> {''json'', ''text'', ''xml'', ''bin''} \<longrightarrow>
        getContentType dataFormat = ''application/json'')"
  by (simp add: getContentType_def)

text \<open>A format outside the table.\<close>

theorem getContentType_table_witness:
  "getContentType ''csv'' = ''application/json''"
  using getContentType_table [of "''csv''"] by simp

section \<open>One acknowledgement\<close>

text \<open>
  C7, as amended. Every call of \<^verbatim>\<open>on_publish\<close> increments the publish counter by exactly
  one. If a callback is stored under the identifier, the call returns, the entry is removed
  and the callback is invoked, once, between taking and releasing the one lock. If the
  registry has no entry for the identifier, the call returns, the \<^verbatim>\<open>None\<close> sentinel is stored
  under the identifier, and nothing is invoked between taking and releasing the lock.
\<close>

theorem on_publish_effect:
  "messages (snd (on_publish mid s)) = messages s + 1
   \<and> (onPublishCallbacks s mid = Some (Callback f) \<longrightarrow>
        fst (on_publish mid s) = Inr ()
        \<and> onPublishCallbacks (snd (on_publish mid s)) = (onPublishCallbacks s)(mid := None)
        \<and> events (snd (on_publish mid s))
            = events s @ [Acquire messagesLock, Invoke f, Release messagesLock])
   \<and> (onPublishCallbacks s mid = None \<longrightarrow>
        fst (on_publish mid s) = Inr ()
        \<and> onPublishCallbacks (snd (on_publish mid s)) = (onPublishCallbacks s)(mid \<mapsto> PyNone)
        \<and> events (snd (on_publish mid s))
            = events s @ [Acquire messagesLock, Release messagesLock])"
  by (simp add: on_publish_def Let_def split: option.split slot.split)

text \<open>Callback 3 stored under identifier 7; nothing stored under identifier 8.\<close>

theorem on_publish_effect_witness:
  "messages (snd (on_publish 7 (example_client\<lparr>onPublishCallbacks := [7 \<mapsto> Callback 3]\<rparr>))) = 1
   \<and> events (snd (on_publish 7 (example_client\<lparr>onPublishCallbacks := [7 \<mapsto> Callback 3]\<rparr>)))
       = events example_client @ [Acquire messagesLock, Invoke 3, Release messagesLock]
   \<and> onPublishCallbacks
        (snd (on_publish 7 (example_client\<lparr>onPublishCallbacks := [7 \<mapsto> Callback 3]\<rparr>))) 7 = None
   \<and> onPublishCallbacks (snd (on_publish 8 example_client)) 8 = Some PyNone"
  using on_publish_effect [of 7 "example_client\<lparr>onPublishCallbacks := [7 \<mapsto> Callback 3]\<rparr>" 3]
    on_publish_effect [of 8 example_client 3] example_fresh
  by (simp add: fresh_def)

text \<open>
  The claim as stated fails when the sentinel is already stored: after one acknowledgement
  of identifier 7 on the example client no callback is registered for it, and a second
  acknowledgement neither invokes a callback nor leaves a sentinel under 7.
\<close>

theorem on_publish_counterexample:
  "onPublishCallbacks (snd (on_publish 7 example_client)) 7 = Some PyNone
   \<and> onPublishCallbacks (snd (on_publish 7 (snd (on_publish 7 example_client)))) 7
       \<noteq> Some PyNone
   \<and> invocations (events (snd (on_publish 7 (snd (on_publish 7 example_client)))))
       = invocations (events (snd (on_publish 7 example_client)))"
  using example_fresh
  by (simp add: fresh_def on_publish_def Let_def invocations_append)

section \<open>Disconnecting\<close>

text \<open>
  C8. Every call of \<^verbatim>\<open>disconnect\<close> makes exactly these calls, in this order: the paho
  \<^verbatim>\<open>disconnect\<close>, then \<^verbatim>\<open>loop_stop\<close>, then one info-level log call. The two calls on the
  transport are always both made.
\<close>

theorem disconnect_order:
  "events (disconnect s)
     = events s @ [Paho paho_disconnect, Paho loop_stop,
                   Log INFO ''Closed connection to the IBM Watson IoT Platform'' []]
   \<and> paho_calls (events (disconnect s))
     = paho_calls (events s) @ [paho_disconnect, loop_stop]"
  by (simp add: disconnect_def Let_def paho_calls_append)

text \<open>Disconnecting the connected client.\<close>

theorem disconnect_order_witness:
  "paho_calls (events (disconnect connected_client))
     = paho_calls (events connected_client) @ [paho_disconnect, loop_stop]"
  by (rule disconnect_order [of connected_client, THEN conjunct2])

section \<open>Two acknowledgements of one identifier\<close>

text \<open>
  C9. \<^verbatim>\<open>on_publish\<close> calls whatever is stored under the identifier: when that is the \<^verbatim>\<open>None\<close>
  sentinel, the call removes the entry and raises \<^verbatim>\<open>TypeError\<close>. So, for an identifier with
  no entry, two acknowledgements with no registration in between go as follows: the first
  returns and stores the sentinel; the second raises \<^verbatim>\<open>TypeError\<close>, leaves no entry, and
  invokes no callback; the counter has grown by two.
\<close>

theorem on_publish_twice_fails:
  "(onPublishCallbacks s mid = Some PyNone \<longrightarrow>
      fst (on_publish mid s) = Inl none_not_callable
      \<and> onPublishCallbacks (snd (on_publish mid s)) mid = None)
   \<and> (onPublishCallbacks s mid = None \<longrightarrow>
      fst (on_publish mid s) = Inr ()
      \<and> onPublishCallbacks (snd (on_publish mid s)) mid = Some PyNone
      \<and> fst (on_publish mid (snd (on_publish mid s))) = Inl none_not_callable
      \<and> onPublishCallbacks (snd (on_publish mid (snd (on_publish mid s)))) mid = None
      \<and> invocations (events (snd (on_publish mid (snd (on_publish mid s)))))
          = invocations (events s)
      \<and> messages (snd (on_publish mid (snd (on_publish mid s)))) = messages s + 2)"
  by (simp add: on_publish_def Let_def invocations_append)

text \<open>Identifier 7, acknowledged twice on the example client.\<close>

theorem on_publish_twice_fails_witness:
  "fst (on_publish 7 example_client) = Inr ()
   \<and> fst (on_publish 7 (snd (on_publish 7 example_client)))
       = Inl (TypeError ([CHR 39] @ ''NoneType'' @ [CHR 39] @ '' object is not callable''))
   \<and> onPublishCallbacks (snd (on_publish 7 (snd (on_publish 7 example_client)))) 7 = None"
  using on_publish_twice_fails [of example_client 7] example_fresh
  by (simp add: fresh_def none_not_callable_def)

section \<open>The exception hierarchy\<close>

text \<open>
  C10. \<^verbatim>\<open>ConfigurationException\<close> and \<^verbatim>\<open>UnsupportedAuthenticationMethod\<close> derive from
  \<^verbatim>\<open>ConnectionException\<close> (and not the other way round), so a handler for
  \<^verbatim>\<open>ConnectionException\<close> catches every exception of either class.
\<close>

theorem configuration_errors_are_connection_errors:
  "issubclass ConfigurationException_cls ConnectionException_cls
   \<and> issubclass UnsupportedAuthenticationMethod_cls ConnectionException_cls
   \<and> \<not> issubclass ConnectionException_cls ConfigurationException_cls
   \<and> \<not> issubclass ConnectionException_cls UnsupportedAuthenticationMethod_cls
   \<and> (class_of e \<in> {ConfigurationException_cls, UnsupportedAuthenticationMethod_cls} \<longrightarrow>
        caught_by ConnectionException_cls e)"
proof -
  have cfg: "mro ConfigurationException_cls
      = [ConfigurationException_cls, ConnectionException_cls, Exception_cls, BaseException_cls]"
    by (simp add: mro.simps)
  have una: "mro UnsupportedAuthenticationMethod_cls
      = [UnsupportedAuthenticationMethod_cls, ConnectionException_cls, Exception_cls,
         BaseException_cls]"
    by (simp add: mro.simps)
  have con: "mro ConnectionException_cls
      = [ConnectionException_cls, Exception_cls, BaseException_cls]"
    by (simp add: mro.simps)
  show ?thesis
    by (auto simp: issubclass_def caught_by_def cfg una con)
qed

text \<open>The error of the address resolution, and an unsupported method.\<close>

theorem configuration_errors_are_connection_errors_witness:
  "caught_by ConnectionException_cls
     (ConfigurationException
        ''No full broker URL given, so both domain and organisation must be specified'')
   \<and> caught_by ConnectionException_cls (UnsupportedAuthenticationMethod ''apikey'')"
  using configuration_errors_are_connection_errors [of "ConfigurationException
        ''No full broker URL given, so both domain and organisation must be specified''"]
    configuration_errors_are_connection_errors [of "UnsupportedAuthenticationMethod ''apikey''"]
  by simp

end
